theory Spec2Isabelle
  imports Complex_Main
begin

section \<open>The bond and its present value\<close>

text \<open>
  The class \<open>Bond\<close> of \<open>bondfinal.cpp\<close>. A \<open>double\<close> is modelled by a real number:
  rounding, infinities and NaN are outside the model, so every statement below is about
  the exact arithmetic the program approximates, and a decimal literal such as \<open>1e-6\<close> or
  \<open>0.005\<close> is the rational number it denotes. Where the program divides by zero (a zero
  \<open>payment_frequency\<close> or \<open>market_price\<close>, or a per-period factor
  \<open>1 + rate / payment_frequency\<close> that is zero) it produces an infinity or a NaN; the
  quotient of the model has no meaning there. An \<open>int\<close> is modelled by an unbounded
  integer (signed overflow is undefined in C++).
\<close>

record bond =
  face_value :: real
  coupon_rate :: real
  market_price :: real
  remaining_years :: int
  payment_frequency :: int
  required_yield :: real

text \<open>\<open>std::pow\<close> at an integer exponent, which may be zero or negative.\<close>

definition pow :: "real \<Rightarrow> int \<Rightarrow> real" where
  "pow x t = power_int x t"

definition calculate_coupon :: "bond \<Rightarrow> real" where
  "calculate_coupon b = face_value b * coupon_rate b / real_of_int (payment_frequency b)"

text \<open>The \<open>for\<close> loop of \<open>calculate_present_value\<close>: \<open>t\<close> runs from its start up to \<open>periods\<close>.\<close>

function pv_loop :: "bond \<Rightarrow> real \<Rightarrow> int \<Rightarrow> int \<Rightarrow> real \<Rightarrow> real" where
  "pv_loop b rate periods t pv =
     (if t \<le> periods
      then pv_loop b rate periods (t + 1)
             (pv + calculate_coupon b / pow (1 + rate / real_of_int (payment_frequency b)) t)
      else pv)"
  by pat_completeness auto
termination
  by (relation "measure (\<lambda>(b, rate, periods, t, pv). nat (periods + 1 - t))") auto

declare pv_loop.simps [simp del]

definition calculate_present_value :: "bond \<Rightarrow> real \<Rightarrow> real" where
  "calculate_present_value b rate =
     (let periods = remaining_years b * payment_frequency b;
          pv = pv_loop b rate periods 1 0
      in pv + face_value b / pow (1 + rate / real_of_int (payment_frequency b)) periods)"

definition calculate_current_yield :: "bond \<Rightarrow> real" where
  "calculate_current_yield b = calculate_coupon b / market_price b"

text \<open>
  A bond as the data model of the specification has it: a positive face value, a coupon
  rate that is not negative, and positive numbers of years and of payments per year.
\<close>

definition valid_terms :: "bond \<Rightarrow> bool" where
  "valid_terms b \<longleftrightarrow>
     0 < face_value b \<and> 0 \<le> coupon_rate b \<and> 0 < payment_frequency b \<and>
     1 \<le> remaining_years b * payment_frequency b"

text \<open>
  The bond of the specification's round-trip example, and a zero-coupon bond of ten years
  with a very large face value, priced at \<open>(3 / 4) ^ 10\<close> of it: its yield is one third.
\<close>

definition example_bond :: bond where
  "example_bond =
     \<lparr>face_value = 1000, coupon_rate = 6 / 100, market_price = 950, remaining_years = 10,
      payment_frequency = 2, required_yield = - 1\<rparr>"



text \<open>
  Three bonds of one year: two whose required yield is still \<open>-1\<close>, paying twice and four
  times a year, and one with a required yield of 6 percent.
\<close>

definition sentinel_bond :: bond where
  "sentinel_bond =
     \<lparr>face_value = 1000, coupon_rate = 5 / 100, market_price = 950, remaining_years = 1,
      payment_frequency = 2, required_yield = - 1\<rparr>"

definition quarterly_sentinel_bond :: bond where
  "quarterly_sentinel_bond =
     \<lparr>face_value = 1000, coupon_rate = 5 / 100, market_price = 950, remaining_years = 1,
      payment_frequency = 4, required_yield = - 1\<rparr>"

definition short_bond :: bond where
  "short_bond =
     \<lparr>face_value = 1000, coupon_rate = 5 / 100, market_price = 950, remaining_years = 1,
      payment_frequency = 2, required_yield = 6 / 100\<rparr>"

section \<open>The bisection solvers\<close>

text \<open>
  \<open>calculate_ytm\<close>: the \<open>for\<close> loop over \<open>i\<close>, with the early \<open>return mid\<close> inside it
  and the \<open>return mid\<close> after it. The second component of the result tells which of the
  two \<open>return\<close> statements was taken: it is \<open>True\<close> for the one inside the loop, behind the
  tolerance test. It is a ghost value, not part of the program.
\<close>

function ytm_loop ::
  "bond \<Rightarrow> real \<Rightarrow> int \<Rightarrow> int \<Rightarrow> real \<Rightarrow> real \<Rightarrow> real \<Rightarrow> real \<times> bool" where
  "ytm_loop b tol max_iter i low high mid =
     (if i < max_iter
      then (let mid' = (low + high) / 2;
                pv = calculate_present_value b mid';
                diff = market_price b - pv
            in if \<bar>diff\<bar> < tol then (mid', True)
               else if pv < market_price b
                    then ytm_loop b tol max_iter (i + 1) low mid' mid'
                    else ytm_loop b tol max_iter (i + 1) mid' high mid')
      else (mid, False))"
  by pat_completeness auto
termination
  by (relation "measure (\<lambda>(b, tol, max_iter, i, low, high, mid). nat (max_iter - i))") auto

declare ytm_loop.simps [simp del]

definition calculate_ytm :: "bond \<Rightarrow> real \<Rightarrow> int \<Rightarrow> real" where
  "calculate_ytm b tol max_iter = fst (ytm_loop b tol max_iter 0 0 1 0)"


text \<open>The default arguments \<open>tol = 1e-6\<close> and \<open>max_iter = 1000\<close>.\<close>

definition default_tol :: real where
  "default_tol = 1 / 10 ^ 6"

definition default_max_iter :: int where
  "default_max_iter = 1000"

text \<open>
  \<open>calculate_break_even_yield\<close>: the \<open>while\<close> loop. The local \<open>mid\<close> is declared without
  a value, so it is \<open>None\<close> until the loop body assigns it. The last argument counts the
  iterations performed; it is a ghost variable, not part of the program.
\<close>

function break_even_loop ::
  "bond \<Rightarrow> real \<Rightarrow> real \<Rightarrow> real \<Rightarrow> real option \<Rightarrow> nat \<Rightarrow> real option \<times> nat" where
  "break_even_loop b reference_price low high mid n =
     (if high - low > 1 / 10 ^ 6
      then (let mid' = (low + high) / 2;
                pv = calculate_present_value b mid'
            in if pv < reference_price
               then break_even_loop b reference_price mid' high (Some mid') (Suc n)
               else break_even_loop b reference_price low mid' (Some mid') (Suc n))
      else (mid, n))"
  by pat_completeness auto
termination
proof (relation "measure (\<lambda>(b, r, low, high, mid, n). nat \<lceil>(high - low) * 10 ^ 6\<rceil>)")
  show "wf (measure (\<lambda>(b, r, low, high, mid, n). nat \<lceil>(high - low) * 10 ^ 6\<rceil>))"
    by simp
next
  fix b :: bond and reference_price low high :: real and mid :: "real option" and n :: nat
    and x xa :: real
  assume w: "1 / 10 ^ 6 < high - low" and x: "x = (low + high) / 2"
  define y where "y = (high - low) * 10 ^ 6"
  have y: "1 < y"
    using w by (simp add: y_def field_simps)
  have "\<lceil>y / 2\<rceil> < \<lceil>y\<rceil>"
  proof (cases "y \<le> 2")
    case True
    then have "\<lceil>y / 2\<rceil> \<le> 1"
      by (simp add: ceiling_le_iff)
    moreover have "1 < \<lceil>y\<rceil>"
      using y by (simp add: less_ceiling_iff)
    ultimately show ?thesis by linarith
  next
    case False
    then have "y / 2 \<le> y - 1" by simp
    then have "\<lceil>y / 2\<rceil> \<le> \<lceil>y - 1\<rceil>"
      by (rule ceiling_mono)
    then show ?thesis by simp
  qed
  then have "\<lceil>(high - low) / 2 * 10 ^ 6\<rceil> < \<lceil>(high - low) * 10 ^ 6\<rceil>"
    by (simp add: y_def)
  moreover have "0 < \<lceil>(high - low) * 10 ^ 6\<rceil>"
    using w by (simp add: less_ceiling_iff)
  ultimately have d: "nat \<lceil>(high - low) / 2 * 10 ^ 6\<rceil> < nat \<lceil>(high - low) * 10 ^ 6\<rceil>"
    by linarith
  have h1: "high - x = (high - low) / 2" and h2: "x - low = (high - low) / 2"
    unfolding x by (simp_all add: field_simps)
  show "((b, reference_price, x, high, Some x, Suc n), b, reference_price, low, high, mid, n)
      \<in> measure (\<lambda>(b, r, low, high, mid, n). nat \<lceil>(high - low) * 10 ^ 6\<rceil>)"
    using d by (simp only: in_measure prod.case h1)
  show "((b, reference_price, low, x, Some x, Suc n), b, reference_price, low, high, mid, n)
      \<in> measure (\<lambda>(b, r, low, high, mid, n). nat \<lceil>(high - low) * 10 ^ 6\<rceil>)"
    using d by (simp only: in_measure prod.case h2)
qed

declare break_even_loop.simps [simp del]

definition calculate_break_even_yield :: "bond \<Rightarrow> real \<Rightarrow> real option" where
  "calculate_break_even_yield b reference_price =
     fst (break_even_loop b reference_price 0 1 None 0)"

definition break_even_iterations :: "bond \<Rightarrow> real \<Rightarrow> nat" where
  "break_even_iterations b reference_price =
     snd (break_even_loop b reference_price 0 1 None 0)"

section \<open>Duration and convexity\<close>

function duration_loop :: "bond \<Rightarrow> int \<Rightarrow> int \<Rightarrow> real \<Rightarrow> real" where
  "duration_loop b periods t duration =
     (if t \<le> periods
      then duration_loop b periods (t + 1)
             (duration + real_of_int t * calculate_coupon b
                / pow (1 + required_yield b / real_of_int (payment_frequency b)) t)
      else duration)"
  by pat_completeness auto
termination
  by (relation "measure (\<lambda>(b, periods, t, duration). nat (periods + 1 - t))") auto

declare duration_loop.simps [simp del]

definition calculate_macaulay_duration :: "bond \<Rightarrow> real" where
  "calculate_macaulay_duration b =
     (let periods = remaining_years b * payment_frequency b;
          duration = duration_loop b periods 1 0;
          duration = duration + real_of_int periods * face_value b
                       / pow (1 + required_yield b / real_of_int (payment_frequency b)) periods
      in duration / market_price b)"

definition calculate_modified_duration :: "bond \<Rightarrow> real" where
  "calculate_modified_duration b =
     (let macaulay_duration = calculate_macaulay_duration b
      in macaulay_duration / (1 + required_yield b / real_of_int (payment_frequency b)))"

function convexity_loop :: "bond \<Rightarrow> int \<Rightarrow> int \<Rightarrow> real \<Rightarrow> real" where
  "convexity_loop b periods t convexity =
     (if t \<le> periods
      then convexity_loop b periods (t + 1)
             (convexity + real_of_int (t * (t + 1)) * calculate_coupon b
                / pow (1 + required_yield b / real_of_int (payment_frequency b)) (t + 2))
      else convexity)"
  by pat_completeness auto
termination
  by (relation "measure (\<lambda>(b, periods, t, convexity). nat (periods + 1 - t))") auto

declare convexity_loop.simps [simp del]

definition calculate_convexity :: "bond \<Rightarrow> real" where
  "calculate_convexity b =
     (let periods = remaining_years b * payment_frequency b;
          convexity = convexity_loop b periods 1 0;
          convexity = convexity + real_of_int (periods * (periods + 1)) * face_value b
                        / pow (1 + required_yield b / real_of_int (payment_frequency b)) (periods + 2)
      in convexity / market_price b)"

section \<open>The reports\<close>

text \<open>
  What a report writes to \<open>std::cout\<close>, as the sequence of values handed to \<open><<\<close>:
  a string, a \<open>double\<close>, an \<open>int\<close>, or the end of a line (\<open>std::endl\<close>, and the \<open>\n\<close>
  that ends a title). The manipulators \<open>std::fixed\<close> and \<open>std::setprecision(4)\<close> only
  choose how a number is rendered and are left out.
\<close>

datatype out_item = OStr string | ODbl real | OInt int | OEndl

definition yield_change :: real where
  "yield_change = 5 / 1000"

text \<open>The loop of \<open>display_price_sensitivity\<close>, whose counter \<open>i\<close> is a \<open>double\<close>.\<close>

function sensitivity_loop :: "bond \<Rightarrow> real \<Rightarrow> out_item list \<Rightarrow> out_item list" where
  "sensitivity_loop b i out =
     (if i \<le> 2 * yield_change
      then (let new_yield = required_yield b + i;
                new_price = calculate_present_value b new_yield
            in sensitivity_loop b (i + yield_change)
                 (out @ [OStr ''Yield: '', ODbl new_yield, OStr '' | Price: '', ODbl new_price, OEndl]))
      else out)"
  by pat_completeness auto
termination
proof (relation "measure (\<lambda>(b, i, out). nat \<lceil>3 - 200 * i\<rceil>)")
  show "wf (measure (\<lambda>(b, i, out). nat \<lceil>3 - 200 * i\<rceil>))"
    by simp
next
  fix b :: bond and i :: real and out :: "out_item list" and x xa :: real
  assume i: "i \<le> 2 * yield_change"
  have "3 - 200 * (i + yield_change) = (3 - 200 * i) - 1"
    by (simp add: yield_change_def)
  then have "\<lceil>3 - 200 * (i + yield_change)\<rceil> = \<lceil>(3 - 200 * i) - 1\<rceil>"
    by (rule arg_cong)
  then have "\<lceil>3 - 200 * (i + yield_change)\<rceil> = \<lceil>3 - 200 * i\<rceil> - 1"
    by (simp only: ceiling_diff_one)
  moreover have "1 \<le> 3 - 200 * i"
    using i by (simp add: yield_change_def)
  then have "1 \<le> \<lceil>3 - 200 * i\<rceil>"
    by (simp add: le_ceiling_iff)
  ultimately show "((b, i + yield_change,
        out @ [OStr ''Yield: '', ODbl x, OStr '' | Price: '', ODbl xa, OEndl]), b, i, out)
      \<in> measure (\<lambda>(b, i, out). nat \<lceil>3 - 200 * i\<rceil>)"
    by (simp only: in_measure prod.case)
qed

declare sensitivity_loop.simps [simp del]

definition display_price_sensitivity :: "bond \<Rightarrow> out_item list" where
  "display_price_sensitivity b =
     sensitivity_loop b (- 2 * yield_change) [OStr ''Price Sensitivity Analysis:'', OEndl]"

text \<open>The body of the range-based \<open>for\<close> of \<open>display_scenario_analysis\<close>, for one \<open>delta\<close>.\<close>

definition scenario_row :: "bond \<Rightarrow> real \<Rightarrow> out_item list" where
  "scenario_row b delta =
     (let new_yield = required_yield b + delta
      in [OStr ''Yield: '', ODbl new_yield, OEndl,
          OStr ''Price: '', ODbl (calculate_present_value b new_yield), OEndl,
          OStr ''Macaulay Duration: '', ODbl (calculate_macaulay_duration b), OEndl,
          OStr ''Modified Duration: '', ODbl (calculate_modified_duration b), OEndl,
          OStr ''Convexity: '', ODbl (calculate_convexity b), OEndl,
          OEndl])"

fun scenario_loop :: "bond \<Rightarrow> real list \<Rightarrow> out_item list" where
  "scenario_loop b [] = []"
| "scenario_loop b (delta # deltas) = scenario_row b delta @ scenario_loop b deltas"

definition scenarios :: "real list" where
  "scenarios = [- 2 / 100, - 1 / 100, 0, 1 / 100, 2 / 100]"

definition display_scenario_analysis :: "bond \<Rightarrow> out_item list" where
  "display_scenario_analysis b =
     [OStr ''Scenario Analysis:'', OEndl] @ scenario_loop b scenarios"

text \<open>
  The body of the loop of \<open>display_frequency_analysis\<close>: \<open>temp_bond\<close> is a copy of the bond
  with another payment frequency; the bond itself is not written.
\<close>

definition frequency_row :: "bond \<Rightarrow> int \<Rightarrow> out_item list" where
  "frequency_row b freq =
     (let temp_bond = b\<lparr>payment_frequency := freq\<rparr>
      in [OStr ''Payment Frequency: '',
          OStr (if freq = 1 then ''Annual'' else if freq = 2 then ''Semi-Annual'' else ''Quarterly''),
          OEndl,
          OStr ''Price: '', ODbl (calculate_present_value temp_bond (required_yield b)), OEndl,
          OStr ''Macaulay Duration: '', ODbl (calculate_macaulay_duration temp_bond), OEndl,
          OStr ''Modified Duration: '', ODbl (calculate_modified_duration temp_bond), OEndl,
          OStr ''Convexity: '', ODbl (calculate_convexity temp_bond), OEndl,
          OEndl])"

fun frequency_loop :: "bond \<Rightarrow> int list \<Rightarrow> out_item list" where
  "frequency_loop b [] = []"
| "frequency_loop b (freq # freqs) = frequency_row b freq @ frequency_loop b freqs"

definition frequencies :: "int list" where
  "frequencies = [1, 2, 4]"

definition display_frequency_analysis :: "bond \<Rightarrow> out_item list" where
  "display_frequency_analysis b =
     [OStr ''Frequency Analysis:'', OEndl] @ frequency_loop b frequencies"

function amortization_loop :: "bond \<Rightarrow> real \<Rightarrow> int \<Rightarrow> int \<Rightarrow> out_item list \<Rightarrow> out_item list" where
  "amortization_loop b coupon periods t out =
     (if t \<le> periods
      then (let payment_time = real_of_int t / real_of_int (payment_frequency b);
                payment = (if t = periods then coupon + face_value b else coupon)
            in amortization_loop b coupon periods (t + 1)
                 (out @ [OStr ''Period: '', OInt t, OStr '' | Payment Time: '', ODbl payment_time,
                         OStr '' | Payment: '', ODbl payment, OEndl]))
      else out)"
  by pat_completeness auto
termination
  by (relation "measure (\<lambda>(b, coupon, periods, t, out). nat (periods + 1 - t))") auto

declare amortization_loop.simps [simp del]

definition display_amortization_schedule :: "bond \<Rightarrow> out_item list" where
  "display_amortization_schedule b =
     (let coupon = calculate_coupon b;
          periods = remaining_years b * payment_frequency b
      in amortization_loop b coupon periods 1 [OStr ''Amortization Schedule:'', OEndl])"

section \<open>Resolving the required yield\<close>

text \<open>
  \<open>calculate_required_yield\<close> is the one member function that is not \<open>const\<close>: it returns
  what it prints together with the bond it leaves behind. Every other member function is
  \<open>const\<close> and is a function of the bond that returns no bond.
\<close>

definition calculate_required_yield :: "bond \<Rightarrow> out_item list \<times> bond" where
  "calculate_required_yield b =
     (if required_yield b = - 1
      then ([OStr ''Calculating required yield (YTM) based on the market price...'', OEndl],
            b\<lparr>required_yield := calculate_ytm b default_tol default_max_iter\<rparr>)
      else ([], b))"

section \<open>Properties of the present value\<close>

lemma int_interval_head: "t \<le> p \<Longrightarrow> {t..p} = insert t {t + 1..p}" for t p :: int
  by auto

lemma pv_loop_sum:
  "pv_loop b rate periods t pv =
     pv + (\<Sum>k = t..periods. calculate_coupon b / pow (1 + rate / real_of_int (payment_frequency b)) k)"
proof (induction b rate periods t pv rule: pv_loop.induct)
  case (1 b rate periods t pv)
  show ?case
  proof (cases "t \<le> periods")
    case True
    then show ?thesis
      using "1.IH" [OF True] by (subst pv_loop.simps) (simp add: int_interval_head)
  next
    case False
    then show ?thesis
      by (subst pv_loop.simps) simp
  qed
qed

lemma present_value_sum:
  "calculate_present_value b rate =
     (\<Sum>k = 1..remaining_years b * payment_frequency b.
        calculate_coupon b / pow (1 + rate / real_of_int (payment_frequency b)) k)
     + face_value b / pow (1 + rate / real_of_int (payment_frequency b))
         (remaining_years b * payment_frequency b)"
  by (simp add: calculate_present_value_def Let_def pv_loop_sum)

lemma pow_pos: "0 < x \<Longrightarrow> 0 < pow x k"
  by (simp add: pow_def zero_less_power_int)

lemma pow_strict_mono: "0 < x \<Longrightarrow> x < y \<Longrightarrow> 0 < k \<Longrightarrow> pow x k < pow y k"
  by (simp add: pow_def power_int_strict_mono)

lemma pow_mono: "0 < x \<Longrightarrow> x \<le> y \<Longrightarrow> 0 \<le> k \<Longrightarrow> pow x k \<le> pow y k"
  by (simp add: pow_def power_int_mono)

text \<open>
  In exact arithmetic the present value of a valid bond is strictly decreasing in the
  rate, for rates above \<open>- payment_frequency\<close>. The lemmas on the two bisections rest on
  this.
\<close>

lemma present_value_less:
  assumes "valid_terms b"
    and "- real_of_int (payment_frequency b) < rate1"
    and "rate1 < rate2"
  shows "calculate_present_value b rate2 < calculate_present_value b rate1"
proof -
  let ?f = "real_of_int (payment_frequency b)"
  let ?P = "remaining_years b * payment_frequency b"
  let ?x1 = "1 + rate1 / ?f" and ?x2 = "1 + rate2 / ?f"
  have fv: "0 < face_value b" and cr: "0 \<le> coupon_rate b" and P: "1 \<le> ?P"
    using assms(1) by (simp_all add: valid_terms_def)
  have f: "0 < ?f"
    using assms(1) by (simp add: valid_terms_def)
  have x1: "0 < ?x1"
    using assms(2) f by (simp add: field_simps)
  have x12: "?x1 < ?x2"
    using assms(3) f by (simp add: field_simps)
  have x2: "0 < ?x2"
    using x1 x12 by linarith
  have c: "0 \<le> calculate_coupon b"
    using fv cr f by (simp add: calculate_coupon_def)
  have tm: "calculate_coupon b / pow ?x2 k \<le> calculate_coupon b / pow ?x1 k"
    if "k \<in> {1..?P}" for k
  proof -
    have "pow ?x1 k \<le> pow ?x2 k"
      using that x1 x12 by (intro pow_mono) auto
    then show ?thesis
      using c by (intro divide_left_mono) (simp_all add: pow_pos x1 x2)
  qed
  have s: "(\<Sum>k = 1..?P. calculate_coupon b / pow ?x2 k)
      \<le> (\<Sum>k = 1..?P. calculate_coupon b / pow ?x1 k)"
    by (rule sum_mono) (rule tm)
  have "pow ?x1 ?P < pow ?x2 ?P"
    using x1 x12 P by (intro pow_strict_mono) auto
  then have "face_value b / pow ?x2 ?P < face_value b / pow ?x1 ?P"
    using fv by (intro divide_strict_left_mono) (simp_all add: pow_pos x1 x2)
  with s show ?thesis
    by (simp add: present_value_sum)
qed

lemma present_value_antimono:
  assumes "valid_terms b"
    and "- real_of_int (payment_frequency b) < rate1"
    and "rate1 \<le> rate2"
  shows "calculate_present_value b rate2 \<le> calculate_present_value b rate1"
proof (cases "rate1 = rate2")
  case True
  then show ?thesis by simp
next
  case False
  with assms(3) have "rate1 < rate2" by simp
  from present_value_less [OF assms(1,2) this] show ?thesis by simp
qed

text \<open>
  Claim C3, as the code has it. When the number of periods
  \<open>remaining_years * payment_frequency\<close> is zero (in particular when \<open>remaining_years\<close> is
  zero), the present value raises no error: the sum over the periods is empty and the
  result is the face value, whatever the rate.
\<close>

theorem present_value_zero_periods:
  assumes "remaining_years b * payment_frequency b = 0"
  shows "calculate_present_value b rate = face_value b"
  unfolding present_value_sum assms by (simp add: pow_def)

theorem present_value_zero_periods_witness:
  "calculate_present_value
     \<lparr>face_value = 500, coupon_rate = 4 / 100, market_price = 480, remaining_years = 0,
      payment_frequency = 4, required_yield = 5 / 100\<rparr> (5 / 100) = 500"
  using present_value_zero_periods
    [of "\<lparr>face_value = 500, coupon_rate = 4 / 100, market_price = 480, remaining_years = 0,
      payment_frequency = 4, required_yield = 5 / 100\<rparr>" "5 / 100"]
  by simp

text \<open>
  The claim C3 as the specification states it asks for an error. At a bond with no year
  left the code returns the face value 1000, the value of the empty sum.
\<close>

theorem present_value_zero_years_counterexample:
  "calculate_present_value
     \<lparr>face_value = 1000, coupon_rate = 5 / 100, market_price = 950, remaining_years = 0,
      payment_frequency = 2, required_yield = 6 / 100\<rparr> (6 / 100) = 1000"
  by (simp add: calculate_present_value_def Let_def pv_loop.simps pow_def)

section \<open>The current yield\<close>

text \<open>
  Claim C7. The current yield of every bond is the coupon of one period,
  \<open>face_value * coupon_rate / payment_frequency\<close>, divided by the market price; it is
  not multiplied by the number of payments per year.
\<close>

theorem current_yield_periodic_coupon_over_price:
  "calculate_current_yield b =
     (face_value b * coupon_rate b / real_of_int (payment_frequency b)) / market_price b"
  by (simp add: calculate_current_yield_def calculate_coupon_def)

text \<open>
  For a bond paying 6 percent twice a year at a price of 950, the current yield is
  \<open>30 / 950\<close>, half of the annual coupon over the price.
\<close>

lemma current_yield_semi_annual:
  "calculate_current_yield
     \<lparr>face_value = 1000, coupon_rate = 6 / 100, market_price = 950, remaining_years = 10,
      payment_frequency = 2, required_yield = - 1\<rparr> = 3 / 95"
  by (simp add: calculate_current_yield_def calculate_coupon_def)

section \<open>The price sensitivity report\<close>

text \<open>
  Claim C8. For every bond the price sensitivity report consists of its title and of
  exactly five lines, one for each \<open>k\<close> in \<open>-2, -1, 0, 1, 2\<close>, holding the yield
  \<open>required_yield + k * 0.005\<close> and the present value at that yield.
\<close>

theorem price_sensitivity_five_pairs:
  "display_price_sensitivity b =
     [OStr ''Price Sensitivity Analysis:'', OEndl] @
     concat (map (\<lambda>k. [OStr ''Yield: '', ODbl (required_yield b + real_of_int k * (5 / 1000)),
                         OStr '' | Price: '',
                         ODbl (calculate_present_value b (required_yield b + real_of_int k * (5 / 1000))),
                         OEndl])
               [- 2, - 1, 0, 1, 2])"
  by (simp add: display_price_sensitivity_def sensitivity_loop.simps yield_change_def Let_def)

section \<open>The frame of the operations\<close>

text \<open>
  Claim C9. \<open>calculate_required_yield\<close> is the only operation that returns a bond. It
  leaves \<open>face_value\<close>, \<open>coupon_rate\<close>, \<open>market_price\<close>, \<open>remaining_years\<close> and
  \<open>payment_frequency\<close> as they were in every case; when \<open>required_yield\<close> is not \<open>-1\<close> it
  does nothing at all; when it is \<open>-1\<close> it overwrites \<open>required_yield\<close>, and only that
  field, with the yield to maturity. Every other operation is a function of the bond
  whose result holds no bond, so it leaves all the fields unchanged.
\<close>

theorem required_yield_frame:
  "face_value (snd (calculate_required_yield b)) = face_value b \<and>
   coupon_rate (snd (calculate_required_yield b)) = coupon_rate b \<and>
   market_price (snd (calculate_required_yield b)) = market_price b \<and>
   remaining_years (snd (calculate_required_yield b)) = remaining_years b \<and>
   payment_frequency (snd (calculate_required_yield b)) = payment_frequency b \<and>
   (required_yield b \<noteq> - 1 \<longrightarrow> calculate_required_yield b = ([], b)) \<and>
   (required_yield b = - 1 \<longrightarrow>
      snd (calculate_required_yield b) = b\<lparr>required_yield := calculate_ytm b (1 / 10 ^ 6) 1000\<rparr>)"
  by (simp add: calculate_required_yield_def default_tol_def default_max_iter_def)

theorem required_yield_frame_witness:
  "calculate_required_yield
     \<lparr>face_value = 1000, coupon_rate = 5 / 100, market_price = 950, remaining_years = 8,
      payment_frequency = 2, required_yield = 6 / 100\<rparr>
   = ([], \<lparr>face_value = 1000, coupon_rate = 5 / 100, market_price = 950, remaining_years = 8,
      payment_frequency = 2, required_yield = 6 / 100\<rparr>) \<and>
   market_price (snd (calculate_required_yield
     \<lparr>face_value = 1000, coupon_rate = 5 / 100, market_price = 950, remaining_years = 8,
      payment_frequency = 2, required_yield = - 1\<rparr>)) = 950"
  using required_yield_frame
    [of "\<lparr>face_value = 1000, coupon_rate = 5 / 100, market_price = 950, remaining_years = 8,
      payment_frequency = 2, required_yield = 6 / 100\<rparr>"]
    required_yield_frame
    [of "\<lparr>face_value = 1000, coupon_rate = 5 / 100, market_price = 950, remaining_years = 8,
      payment_frequency = 2, required_yield = - 1\<rparr>"]
  by simp

section \<open>The break-even solver\<close>

text \<open>
  The interval of the break-even bisection has width \<open>1 / 2 ^ k\<close> after \<open>k\<close> iterations,
  whichever half is kept: the loop guard holds for \<open>k < 20\<close> and fails at \<open>k = 20\<close>.
\<close>

lemma break_even_guard_open:
  assumes "k < 20"
  shows "(1::real) / 10 ^ 6 < 1 / 2 ^ k"
proof -
  have "(2::real) ^ k \<le> 2 ^ 19"
    using assms by (intro power_increasing) auto
  then have "(2::real) ^ k < 10 ^ 6" by simp
  then show ?thesis
    by (simp add: field_simps)
qed

lemma break_even_guard_closed: "\<not> (1::real) / 10 ^ 6 < 1 / 2 ^ 20"
  by simp

lemma break_even_loop_run:
  assumes "high - low = 1 / 2 ^ k" and "k \<le> 20" and "0 \<le> low" and "high \<le> 1"
    and "k = 20 \<Longrightarrow> \<exists>m. mid = Some m \<and> 0 \<le> m \<and> m \<le> 1"
  shows "\<exists>r. break_even_loop b reference_price low high mid n = (Some r, n + (20 - k))
           \<and> 0 \<le> r \<and> r \<le> 1"
  using assms
proof (induction "20 - k" arbitrary: k low high mid n)
  case 0
  then have k: "k = 20" by simp
  with "0.prems" obtain m where m: "mid = Some m" "0 \<le> m" "m \<le> 1" by blast
  have "\<not> 1 / 10 ^ 6 < high - low"
    using "0.prems"(1) k break_even_guard_closed by simp
  then have "break_even_loop b reference_price low high mid n = (mid, n)"
    by (subst break_even_loop.simps) simp
  with m k show ?case by simp
next
  case (Suc d)
  then have k: "k < 20" and d: "d = 20 - Suc k" by simp_all
  define m where "m = (low + high) / 2"
  have w: "0 < high - low"
    using Suc.prems(1) by simp
  have g: "1 / 10 ^ 6 < high - low"
    using Suc.prems(1) break_even_guard_open [OF k] by simp
  have half: "high - m = 1 / 2 ^ Suc k" "m - low = 1 / 2 ^ Suc k"
    using Suc.prems(1) by (simp_all add: m_def field_simps)
  have m01: "0 \<le> m" "m \<le> 1" "low \<le> m" "m \<le> high"
    using w Suc.prems(3,4) by (simp_all add: m_def)
  have mid: "\<exists>m'. Some m = Some m' \<and> 0 \<le> m' \<and> m' \<le> 1"
    using m01 by simp
  have n: "Suc n + (20 - Suc k) = n + (20 - k)"
    using k by simp
  show ?case
  proof (cases "calculate_present_value b m < reference_price")
    case True
    from Suc.hyps(1) [OF d half(1) _ _ Suc.prems(4) mid, of "Suc n"] k m01
    obtain r where "break_even_loop b reference_price m high (Some m) (Suc n) = (Some r, Suc n + (20 - Suc k))"
      "0 \<le> r" "r \<le> 1" by auto
    then show ?thesis
      using g True n by (subst break_even_loop.simps) (simp add: Let_def m_def)
  next
    case False
    from Suc.hyps(1) [OF d half(2) _ Suc.prems(3) _ mid, of "Suc n"] k m01
    obtain r where "break_even_loop b reference_price low m (Some m) (Suc n) = (Some r, Suc n + (20 - Suc k))"
      "0 \<le> r" "r \<le> 1" by auto
    then show ?thesis
      using g False n by (subst break_even_loop.simps) (simp add: Let_def m_def)
  qed
qed

text \<open>
  Claim C10. For every bond and every reference price \<open>calculate_break_even_yield\<close>
  terminates and returns a rate between 0 and 1: the width of its interval starts at 1
  and is halved by every iteration, so the loop guarded by \<open>high - low > 1e-6\<close> performs
  20 iterations.
\<close>

theorem break_even_terminates:
  "\<exists>r. calculate_break_even_yield b reference_price = Some r \<and> 0 \<le> r \<and> r \<le> 1
       \<and> break_even_iterations b reference_price = 20"
proof -
  from break_even_loop_run [of 1 0 0 None b reference_price 0]
  obtain r where "break_even_loop b reference_price 0 1 None 0 = (Some r, 20)" "0 \<le> r" "r \<le> 1"
    by auto
  then show ?thesis
    by (simp add: calculate_break_even_yield_def break_even_iterations_def)
qed

text \<open>
  The direction of the break-even bisection. When the present value at the midpoint is
  below the reference price the loop keeps the upper half, where the present value is
  lower still. With a present value that decreases in the rate the first comparison
  therefore decides all the later ones, and the loop ends at one of the two ends of the
  interval \<open>[0, 1]\<close>.
\<close>

lemma break_even_loop_up:
  assumes "\<And>r. 1 / 2 \<le> r \<Longrightarrow> r \<le> 1 \<Longrightarrow> calculate_present_value b r < reference_price"
    and "high = 1" and "low = 1 - 1 / 2 ^ k" and "k \<le> 20"
    and "k = 20 \<Longrightarrow> mid = Some (1 - 1 / 2 ^ 20)"
  shows "fst (break_even_loop b reference_price low high mid n) = Some (1 - 1 / 2 ^ 20)"
  using assms(2-)
proof (induction "20 - k" arbitrary: k low mid n)
  case 0
  then have k: "k = 20" by simp
  have "\<not> 1 / 10 ^ 6 < high - low"
    using "0.prems"(1,2) k by simp
  then have "break_even_loop b reference_price low high mid n = (mid, n)"
    by (subst break_even_loop.simps) simp
  with "0.prems"(4) k show ?case by simp
next
  case (Suc d)
  then have k: "k < 20" and d: "d = 20 - Suc k" by simp_all
  define m where "m = (low + high) / 2"
  have m: "m = 1 - 1 / 2 ^ Suc k"
    using Suc.prems(1,2) by (simp add: m_def field_simps)
  have "(0::real) < 1 / 2 ^ Suc k" by simp
  moreover have "(1::real) / 2 ^ Suc k \<le> 1 / 2"
    by (simp add: field_simps)
  ultimately have "1 / 2 \<le> m" "m \<le> 1"
    using m by linarith+
  then have br: "calculate_present_value b m < reference_price"
    by (rule assms(1))
  have g: "1 / 10 ^ 6 < high - low"
    using Suc.prems(1,2) break_even_guard_open [OF k] by simp
  have "fst (break_even_loop b reference_price m high (Some m) (Suc n)) = Some (1 - 1 / 2 ^ 20)"
    using Suc.hyps(1) [OF d Suc.prems(1) m, of "Some m" "Suc n"] k m by auto
  then show ?case
    using g br by (subst break_even_loop.simps) (simp add: Let_def m_def)
qed

lemma break_even_loop_down:
  assumes "\<And>r. 0 \<le> r \<Longrightarrow> r \<le> 1 / 2 \<Longrightarrow> \<not> calculate_present_value b r < reference_price"
    and "low = 0" and "high = 1 / 2 ^ k" and "k \<le> 20"
    and "k = 20 \<Longrightarrow> mid = Some (1 / 2 ^ 20)"
  shows "fst (break_even_loop b reference_price low high mid n) = Some (1 / 2 ^ 20)"
  using assms(2-)
proof (induction "20 - k" arbitrary: k high mid n)
  case 0
  then have k: "k = 20" by simp
  have "\<not> 1 / 10 ^ 6 < high - low"
    using "0.prems"(1,2) k by simp
  then have "break_even_loop b reference_price low high mid n = (mid, n)"
    by (subst break_even_loop.simps) simp
  with "0.prems"(4) k show ?case by simp
next
  case (Suc d)
  then have k: "k < 20" and d: "d = 20 - Suc k" by simp_all
  define m where "m = (low + high) / 2"
  have m: "m = 1 / 2 ^ Suc k"
    using Suc.prems(1,2) by (simp add: m_def field_simps)
  have "(0::real) < 1 / 2 ^ Suc k" by simp
  moreover have "(1::real) / 2 ^ Suc k \<le> 1 / 2"
    by (simp add: field_simps)
  ultimately have "0 \<le> m" "m \<le> 1 / 2"
    using m by linarith+
  then have br: "\<not> calculate_present_value b m < reference_price"
    by (rule assms(1))
  have g: "1 / 10 ^ 6 < high - low"
    using Suc.prems(1,2) break_even_guard_open [OF k] by simp
  have "fst (break_even_loop b reference_price low m (Some m) (Suc n)) = Some (1 / 2 ^ 20)"
    using Suc.hyps(1) [OF d Suc.prems(1) m, of "Some m" "Suc n"] k m by auto
  then show ?case
    using g br by (subst break_even_loop.simps) (simp add: Let_def m_def)
qed

lemma break_even_returns_boundary:
  assumes "valid_terms b"
  shows "calculate_break_even_yield b reference_price =
     Some (if calculate_present_value b (1 / 2) < reference_price then 1 - 1 / 2 ^ 20 else 1 / 2 ^ 20)"
proof -
  have f: "- real_of_int (payment_frequency b) < 0"
    using assms by (simp add: valid_terms_def)
  show ?thesis
  proof (cases "calculate_present_value b (1 / 2) < reference_price")
    case True
    have "calculate_present_value b r < reference_price" if "1 / 2 \<le> r" for r
      using present_value_antimono [OF assms _ that] f True by simp
    then have "fst (break_even_loop b reference_price 0 1 None 0) = Some (1 - 1 / 2 ^ 20)"
      by (intro break_even_loop_up [where k = 0]) simp_all
    with True show ?thesis
      by (simp add: calculate_break_even_yield_def)
  next
    case False
    have "\<not> calculate_present_value b r < reference_price" if "0 \<le> r" "r \<le> 1 / 2" for r
      using present_value_antimono [OF assms _ that(2)] f that(1) False by simp
    then have "fst (break_even_loop b reference_price 0 1 None 0) = Some (1 / 2 ^ 20)"
      by (intro break_even_loop_down [where k = 0]) simp_all
    with False show ?thesis
      by (simp add: calculate_break_even_yield_def)
  qed
qed

section \<open>The yield to maturity\<close>

text \<open>
  Where the bisection of \<open>calculate_ytm\<close> ends. If the present value at \<open>a\<close> is above
  the market price by the tolerance or more, and the present value at \<open>c\<close> is below it by
  the tolerance or more, the loop can stop on its tolerance test only strictly between
  \<open>a\<close> and \<open>c\<close>, and its interval always reaches into \<open>(a, c)\<close>. The result is
  therefore in \<open>(a, c)\<close>, up to the width the interval has after the last iteration.
\<close>

lemma ytm_loop_bracket:
  assumes v: "valid_terms b" and tol: "0 < tol"
    and a: "0 \<le> a" "a < c"
    and pa: "market_price b + tol \<le> calculate_present_value b a"
    and pc: "calculate_present_value b c \<le> market_price b - tol"
    and inv: "0 \<le> low" "low < high" "low < c" "a < high" "mid = low \<or> mid = high"
  shows "a - (high - low) / 2 ^ nat (max_iter - i) < fst (ytm_loop b tol max_iter i low high mid) \<and>
         fst (ytm_loop b tol max_iter i low high mid) < c + (high - low) / 2 ^ nat (max_iter - i)"
  using inv
proof (induction "nat (max_iter - i)" arbitrary: i low high mid)
  case 0
  then have "\<not> i < max_iter" by simp
  then have "ytm_loop b tol max_iter i low high mid = (mid, False)"
    by (subst ytm_loop.simps) simp
  moreover have "nat (max_iter - i) = 0"
    using 0 by simp
  ultimately show ?case
    using "0.prems" by auto
next
  case (Suc d)
  then have i: "i < max_iter" and d: "d = nat (max_iter - (i + 1))" by simp_all
  have e: "nat (max_iter - i) = Suc (nat (max_iter - (i + 1)))"
    using i by simp
  define m where "m = (low + high) / 2"
  define pm where "pm = calculate_present_value b m"
  have f: "- real_of_int (payment_frequency b) < 0"
    using v by (simp add: valid_terms_def)
  have m: "low < m" "m < high" "0 < m" "m - low = (high - low) / 2" "high - m = (high - low) / 2"
    using Suc.prems(1,2) by (simp_all add: m_def field_simps)
  have w: "0 < (high - low) / 2 ^ nat (max_iter - i)"
    using Suc.prems(2) by simp
  have below: "a < m" if "pm < market_price b + tol"
  proof (rule ccontr)
    assume "\<not> a < m"
    then have "m \<le> a" by simp
    from present_value_antimono [OF v _ this] f m(3)
    have "calculate_present_value b a \<le> pm" by (simp add: pm_def)
    with pa that show False by simp
  qed
  have above: "m < c" if "market_price b - tol < pm"
  proof (rule ccontr)
    assume "\<not> m < c"
    then have "c \<le> m" by simp
    from present_value_antimono [OF v _ this] f a
    have "pm \<le> calculate_present_value b c" by (simp add: pm_def)
    with pc that show False by simp
  qed
  show ?case
  proof (cases "\<bar>market_price b - pm\<bar> < tol")
    case True
    then have "ytm_loop b tol max_iter i low high mid = (m, True)"
      using i by (subst ytm_loop.simps) (simp add: Let_def m_def pm_def)
    moreover have "a < m" "m < c"
      using True below above by auto
    ultimately show ?thesis
      using w by simp
  next
    case False
    show ?thesis
    proof (cases "pm < market_price b")
      case True
      then have r: "ytm_loop b tol max_iter i low high mid = ytm_loop b tol max_iter (i + 1) low m m"
        using i False by (subst ytm_loop.simps) (simp add: Let_def m_def pm_def)
      have "a < m"
        using True tol by (intro below) simp
      from Suc.hyps(1) [OF d Suc.prems(1) m(1) Suc.prems(3) this, of m]
      show ?thesis
        unfolding r e m(4) by (simp add: field_simps)
    next
      case nlt: False
      then have r: "ytm_loop b tol max_iter i low high mid = ytm_loop b tol max_iter (i + 1) m high m"
        using i False by (subst ytm_loop.simps) (simp add: Let_def m_def pm_def)
      have "m < c"
        using nlt tol by (intro above) simp
      from Suc.hyps(1) [OF d _ m(2) this Suc.prems(4), of m] m(3)
      show ?thesis
        unfolding r e m(5) by (simp add: field_simps)
    qed
  qed
qed


















section \<open>The example bond\<close>

text \<open>
  The bond with face value 1000, coupon rate 0.06, price 950, 10 years and 2 payments a
  year. Its present value is above 950 at the rate 0.0669 and below 950 at the rate
  0.067, so its yield to maturity lies between 0.06689 and 0.06701.
\<close>

lemma example_valid: "valid_terms example_bond"
  by (simp add: valid_terms_def example_bond_def)

lemma example_pv_half: "calculate_present_value example_bond (1 / 2) < 950"
  by (simp add: example_bond_def calculate_present_value_def Let_def pv_loop.simps pow_def
      calculate_coupon_def power_divide)

lemma example_pv_a:
  "950 + 1 / 10 ^ 6 \<le> calculate_present_value example_bond (669 / 10000)"
  by (simp add: example_bond_def calculate_present_value_def Let_def pv_loop.simps pow_def
      calculate_coupon_def power_divide)

lemma example_pv_c:
  "calculate_present_value example_bond (670 / 10000) \<le> 950 - 1 / 10 ^ 6"
  by (simp add: example_bond_def calculate_present_value_def Let_def pv_loop.simps pow_def
      calculate_coupon_def power_divide)



lemma example_ytm_bracket:
  "6689 / 100000 < calculate_ytm example_bond default_tol default_max_iter \<and>
   calculate_ytm example_bond default_tol default_max_iter < 6701 / 100000"
proof -
  define e :: real where "e = (1 - 0) / 2 ^ nat (1000 - 0)"
  have e: "e \<le> 1 / 100000"
    by (simp add: e_def)
  have mp: "market_price example_bond = 950"
    by (simp add: example_bond_def)
  have "669 / 10000 - e < fst (ytm_loop example_bond (1 / 10 ^ 6) 1000 0 0 1 0) \<and>
        fst (ytm_loop example_bond (1 / 10 ^ 6) 1000 0 0 1 0) < 670 / 10000 + e"
    unfolding e_def
    by (rule ytm_loop_bracket [OF example_valid])
      (simp_all only: mp example_pv_a example_pv_c, simp_all)
  then have "669 / 10000 - e < calculate_ytm example_bond default_tol default_max_iter \<and>
        calculate_ytm example_bond default_tol default_max_iter < 670 / 10000 + e"
    by (simp only: calculate_ytm_def default_tol_def default_max_iter_def)
  with e show ?thesis
    by linarith
qed






text \<open>
  Claim C1, on the code. At the example bond, with its market price as the reference
  price, \<open>calculate_break_even_yield\<close> returns \<open>1 - 1 / 2 ^ 20\<close>, the upper end of its
  search interval, while \<open>calculate_ytm\<close> returns a rate below 0.06701: the two differ by
  more than 0.9, not by \<open>1e-5\<close> at most.
\<close>

theorem break_even_differs_from_ytm:
  "calculate_break_even_yield example_bond (market_price example_bond) = Some (1 - 1 / 2 ^ 20) \<and>
   9 / 10 < (1 - 1 / 2 ^ 20) - calculate_ytm example_bond default_tol default_max_iter"
proof -
  have "calculate_present_value example_bond (1 / 2) < market_price example_bond"
    using example_pv_half by (simp add: example_bond_def)
  then have "calculate_break_even_yield example_bond (market_price example_bond)
      = Some (1 - 1 / 2 ^ 20)"
    by (simp only: break_even_returns_boundary [OF example_valid] if_True)
  moreover have "9 / 10 < (1 - 1 / 2 ^ 20) - calculate_ytm example_bond default_tol default_max_iter"
    using example_ytm_bracket by auto
  ultimately show ?thesis by simp
qed

section \<open>Duration, convexity and the scenario report\<close>

text \<open>The loops of the duration and of the convexity are sums over the periods.\<close>

lemma duration_loop_sum:
  "duration_loop b periods t duration =
     duration + (\<Sum>k = t..periods. real_of_int k * calculate_coupon b
        / pow (1 + required_yield b / real_of_int (payment_frequency b)) k)"
proof (induction b periods t duration rule: duration_loop.induct)
  case (1 b periods t duration)
  show ?case
  proof (cases "t \<le> periods")
    case True
    then show ?thesis
      using "1.IH" [OF True] by (subst duration_loop.simps) (simp add: int_interval_head)
  next
    case False
    then show ?thesis
      by (subst duration_loop.simps) simp
  qed
qed

lemma convexity_loop_sum:
  "convexity_loop b periods t convexity =
     convexity + (\<Sum>k = t..periods. real_of_int (k * (k + 1)) * calculate_coupon b
        / pow (1 + required_yield b / real_of_int (payment_frequency b)) (k + 2))"
proof (induction b periods t convexity rule: convexity_loop.induct)
  case (1 b periods t convexity)
  show ?case
  proof (cases "t \<le> periods")
    case True
    then show ?thesis
      using "1.IH" [OF True] by (subst convexity_loop.simps) (simp add: int_interval_head)
  next
    case False
    then show ?thesis
      by (subst convexity_loop.simps) simp
  qed
qed

lemma macaulay_duration_sum:
  "calculate_macaulay_duration b =
     ((\<Sum>k = 1..remaining_years b * payment_frequency b.
         real_of_int k * calculate_coupon b
           / pow (1 + required_yield b / real_of_int (payment_frequency b)) k)
      + real_of_int (remaining_years b * payment_frequency b) * face_value b
          / pow (1 + required_yield b / real_of_int (payment_frequency b))
              (remaining_years b * payment_frequency b))
     / market_price b"
  by (simp add: calculate_macaulay_duration_def Let_def duration_loop_sum)

lemma convexity_sum:
  "calculate_convexity b =
     ((\<Sum>k = 1..remaining_years b * payment_frequency b.
         real_of_int (k * (k + 1)) * calculate_coupon b
           / pow (1 + required_yield b / real_of_int (payment_frequency b)) (k + 2))
      + real_of_int (remaining_years b * payment_frequency b
                     * (remaining_years b * payment_frequency b + 1)) * face_value b
          / pow (1 + required_yield b / real_of_int (payment_frequency b))
              (remaining_years b * payment_frequency b + 2))
     / market_price b"
  by (simp add: calculate_convexity_def Let_def convexity_loop_sum)

lemma scenario_analysis_unfold:
  "display_scenario_analysis b =
     [OStr ''Scenario Analysis:'', OEndl] @
     concat (map (\<lambda>delta.
         [OStr ''Yield: '', ODbl (required_yield b + delta), OEndl,
          OStr ''Price: '', ODbl (calculate_present_value b (required_yield b + delta)), OEndl,
          OStr ''Macaulay Duration: '', ODbl (calculate_macaulay_duration b), OEndl,
          OStr ''Modified Duration: '', ODbl (calculate_modified_duration b), OEndl,
          OStr ''Convexity: '', ODbl (calculate_convexity b), OEndl,
          OEndl])
       [- 2 / 100, - 1 / 100, 0, 1 / 100, 2 / 100])"
  by (simp add: display_scenario_analysis_def scenarios_def scenario_row_def Let_def)

text \<open>
  Claim C2, as the code has it. When \<open>required_yield\<close> still holds \<open>-1\<close>, on a bond with
  two payments a year or more and a market price that is not zero, the Macaulay duration,
  the modified duration, the convexity and the scenario report raise no error: they are
  the values of their formulas with \<open>-1\<close> as the discount rate, and the scenario report
  lists the prices at the yields \<open>-1 + delta\<close>. After its title and its annual row, the
  frequency report lists the same figures, and the present value at \<open>-1\<close>, of the copies
  of the bond with two and with four payments a year. (With one payment a year the
  factor \<open>1 + (-1) / 1\<close> of a period is zero and the program divides by zero: that case,
  and with it the annual row of the frequency report, is left out.)
\<close>

theorem sentinel_yield_is_discounted_at:
  assumes "required_yield b = - 1" and "2 \<le> payment_frequency b" and "market_price b \<noteq> 0"
  shows "calculate_macaulay_duration b =
       ((\<Sum>k = 1..remaining_years b * payment_frequency b.
           real_of_int k * calculate_coupon b / pow (1 + (- 1) / real_of_int (payment_frequency b)) k)
        + real_of_int (remaining_years b * payment_frequency b) * face_value b
            / pow (1 + (- 1) / real_of_int (payment_frequency b))
                (remaining_years b * payment_frequency b))
       / market_price b \<and>
     calculate_modified_duration b =
       calculate_macaulay_duration b / (1 + (- 1) / real_of_int (payment_frequency b)) \<and>
     calculate_convexity b =
       ((\<Sum>k = 1..remaining_years b * payment_frequency b.
           real_of_int (k * (k + 1)) * calculate_coupon b
             / pow (1 + (- 1) / real_of_int (payment_frequency b)) (k + 2))
        + real_of_int (remaining_years b * payment_frequency b
                       * (remaining_years b * payment_frequency b + 1)) * face_value b
            / pow (1 + (- 1) / real_of_int (payment_frequency b))
                (remaining_years b * payment_frequency b + 2))
       / market_price b \<and>
     display_scenario_analysis b =
       [OStr ''Scenario Analysis:'', OEndl] @
       concat (map (\<lambda>delta.
           [OStr ''Yield: '', ODbl (- 1 + delta), OEndl,
            OStr ''Price: '', ODbl (calculate_present_value b (- 1 + delta)), OEndl,
            OStr ''Macaulay Duration: '', ODbl (calculate_macaulay_duration b), OEndl,
            OStr ''Modified Duration: '', ODbl (calculate_modified_duration b), OEndl,
            OStr ''Convexity: '', ODbl (calculate_convexity b), OEndl,
            OEndl])
         [- 2 / 100, - 1 / 100, 0, 1 / 100, 2 / 100]) \<and>
     drop 18 (display_frequency_analysis b) =
       concat (map (\<lambda>(freq, name).
           [OStr ''Payment Frequency: '', OStr name, OEndl,
            OStr ''Price: '',
            ODbl (calculate_present_value (b\<lparr>payment_frequency := freq\<rparr>) (- 1)), OEndl,
            OStr ''Macaulay Duration: '',
            ODbl (calculate_macaulay_duration (b\<lparr>payment_frequency := freq\<rparr>)), OEndl,
            OStr ''Modified Duration: '',
            ODbl (calculate_modified_duration (b\<lparr>payment_frequency := freq\<rparr>)), OEndl,
            OStr ''Convexity: '',
            ODbl (calculate_convexity (b\<lparr>payment_frequency := freq\<rparr>)), OEndl,
            OEndl])
         [(2, ''Semi-Annual''), (4, ''Quarterly'')])"
proof -
  have "drop 18 (display_frequency_analysis b) =
       concat (map (\<lambda>(freq, name).
           [OStr ''Payment Frequency: '', OStr name, OEndl,
            OStr ''Price: '',
            ODbl (calculate_present_value (b\<lparr>payment_frequency := freq\<rparr>) (- 1)), OEndl,
            OStr ''Macaulay Duration: '',
            ODbl (calculate_macaulay_duration (b\<lparr>payment_frequency := freq\<rparr>)), OEndl,
            OStr ''Modified Duration: '',
            ODbl (calculate_modified_duration (b\<lparr>payment_frequency := freq\<rparr>)), OEndl,
            OStr ''Convexity: '',
            ODbl (calculate_convexity (b\<lparr>payment_frequency := freq\<rparr>)), OEndl,
            OEndl])
         [(2, ''Semi-Annual''), (4, ''Quarterly'')])"
    by (simp add: display_frequency_analysis_def frequencies_def frequency_row_def Let_def assms(1))
  then show ?thesis
    unfolding scenario_analysis_unfold macaulay_duration_sum convexity_sum
      calculate_modified_duration_def Let_def assms(1)
    by simp
qed

theorem sentinel_yield_is_discounted_at_witness:
  "calculate_macaulay_duration quarterly_sentinel_bond = 259 / 19 \<and>
   calculate_modified_duration quarterly_sentinel_bond = 1036 / 57 \<and>
   calculate_convexity quarterly_sentinel_bond = 185824 / 1539"
proof -
  have r: "required_yield quarterly_sentinel_bond = - 1"
    by (simp add: quarterly_sentinel_bond_def)
  have i: "{1..4::int} = {1, 2, 3, 4}"
    by auto
  have f: "2 \<le> payment_frequency quarterly_sentinel_bond"
    and m: "market_price quarterly_sentinel_bond \<noteq> 0"
    by (simp_all add: quarterly_sentinel_bond_def)
  from sentinel_yield_is_discounted_at [OF r f m]
  have "calculate_macaulay_duration quarterly_sentinel_bond = 259 / 19"
    and "calculate_modified_duration quarterly_sentinel_bond
      = calculate_macaulay_duration quarterly_sentinel_bond / (3 / 4)"
    and "calculate_convexity quarterly_sentinel_bond = 185824 / 1539"
    by (simp_all add: quarterly_sentinel_bond_def calculate_coupon_def pow_def i power_divide)
  then show ?thesis by simp
qed

text \<open>
  The claim C2 as the specification states it asks for an error. For the bond of one year
  paying twice a year, with \<open>required_yield = -1\<close>, the code returns the numbers that
  discounting at \<open>-1\<close> gives: per period the factor is \<open>1 - 1 / 2\<close>.
\<close>

theorem sentinel_yield_counterexample:
  "calculate_macaulay_duration sentinel_bond = 165 / 19 \<and>
   calculate_modified_duration sentinel_bond = 330 / 19 \<and>
   calculate_convexity sentinel_bond = 104"
  by (simp add: sentinel_bond_def calculate_macaulay_duration_def calculate_modified_duration_def
      calculate_convexity_def Let_def duration_loop.simps convexity_loop.simps pow_def
      calculate_coupon_def power_divide)

text \<open>
  Claim C6, as the code has it. The scenario report consists of its title and, for each
  \<open>delta\<close> in \<open>-0.02, -0.01, 0, 0.01, 0.02\<close>, of the yield \<open>required_yield + delta\<close>, the
  present value at that yield, and the Macaulay duration, the modified duration and the
  convexity at the unshifted \<open>required_yield\<close>, which are the same in all five rows. The
  report holds no current yield.
\<close>

theorem scenario_analysis_rows:
  "display_scenario_analysis b =
     [OStr ''Scenario Analysis:'', OEndl] @
     concat (map (\<lambda>delta.
         [OStr ''Yield: '', ODbl (required_yield b + delta), OEndl,
          OStr ''Price: '', ODbl (calculate_present_value b (required_yield b + delta)), OEndl,
          OStr ''Macaulay Duration: '', ODbl (calculate_macaulay_duration b), OEndl,
          OStr ''Modified Duration: '', ODbl (calculate_modified_duration b), OEndl,
          OStr ''Convexity: '', ODbl (calculate_convexity b), OEndl,
          OEndl])
       [- 2 / 100, - 1 / 100, 0, 1 / 100, 2 / 100])"
  by (rule scenario_analysis_unfold)

lemma short_bond_figures:
  "calculate_macaulay_duration short_bond = 21850 / 10609"
  "calculate_modified_duration short_bond = 2185000 / 1092727"
  "calculate_convexity short_bond = 12403000000 / 2138466739"
  "calculate_current_yield short_bond = 1 / 38"
  by (simp_all add: short_bond_def calculate_macaulay_duration_def calculate_modified_duration_def
      calculate_convexity_def Let_def duration_loop.simps convexity_loop.simps pow_def
      calculate_coupon_def calculate_current_yield_def power_divide)

lemma short_bond_prices:
  "calculate_present_value short_bond (1 / 25) = 2626250 / 2601"
  "calculate_present_value short_bond (1 / 20) = 1000"
  "calculate_present_value short_bond (3 / 50) = 10507500 / 10609"
  "calculate_present_value short_bond (7 / 100) = 42035000 / 42849"
  "calculate_present_value short_bond (2 / 25) = 656875 / 676"
  by (simp_all add: short_bond_def calculate_present_value_def Let_def pv_loop.simps pow_def
      calculate_coupon_def power_divide)

text \<open>
  The claim C6 as the specification states it has a current yield in every row. For the
  bond of one year with a required yield of 6 percent, neither the current yield
  \<open>1 / 38\<close> nor a line for it is in the report.
\<close>

theorem scenario_current_yield_counterexample:
  "ODbl (calculate_current_yield short_bond) \<notin> set (display_scenario_analysis short_bond) \<and>
   OStr ''Current Yield: '' \<notin> set (display_scenario_analysis short_bond)"
proof -
  have r: "required_yield short_bond = 6 / 100"
    by (simp add: short_bond_def)
  show ?thesis
    unfolding scenario_analysis_unfold r
    by (simp add: short_bond_figures short_bond_prices)
qed

end
